theory Spec2Isabelle
  imports Complex_Main
begin

section \<open>JavaScript values\<close>

text \<open>
  The values that reach \<^verbatim>\<open>typescriptTransform.js\<close>: what \<^verbatim>\<open>require\<close> gives
  for \<^verbatim>\<open>tsconfig.json\<close>, the fields of the \<^verbatim>\<open>options\<close> record, and the compiler
  options. A string is kept as the bytes of its UTF-8 encoding, the form in which
  \<^verbatim>\<open>hash.update\<close> consumes it. A number is the rational it denotes (JSON text has no
  NaN). The properties of an object are an association list in insertion order, each
  key once.
\<close>

datatype jsval =
    JUndefined
  | JNull
  | JBool bool
  | JNum rat
  | JStr string
  | JArr "jsval list"
  | JObj "(string \<times> jsval) list"

type_synonym props = "(string \<times> jsval) list"

datatype error = TypeError | Exception string

text \<open>ToBoolean, as applied by \<^verbatim>\<open>if\<close>, \<^verbatim>\<open>&&\<close> and \<^verbatim>\<open>?:\<close>.\<close>

fun truthy :: "jsval \<Rightarrow> bool" where
  "truthy JUndefined = False"
| "truthy JNull = False"
| "truthy (JBool b) = b"
| "truthy (JNum n) = (n \<noteq> 0)"
| "truthy (JStr s) = (s \<noteq> [])"
| "truthy (JArr xs) = True"
| "truthy (JObj ps) = True"

text \<open>
  Reading a property by name. The three names read in this module
  (\<^verbatim>\<open>compilerOptions\<close>, \<^verbatim>\<open>instrument\<close>, \<^verbatim>\<open>sourceMap\<close>) are neither array indices
  nor defined by a built-in prototype, so only an own property of a plain object can
  answer; every other value that is not \<^verbatim>\<open>null\<close> or \<^verbatim>\<open>undefined\<close> gives
  \<^verbatim>\<open>undefined\<close>, and those two throw.
\<close>

definition get_prop :: "props \<Rightarrow> string \<Rightarrow> jsval" where
  "get_prop ps k = (case map_of ps k of None \<Rightarrow> JUndefined | Some v \<Rightarrow> v)"

fun member :: "jsval \<Rightarrow> string \<Rightarrow> error + jsval" where
  "member JUndefined k = Inl TypeError"
| "member JNull k = Inl TypeError"
| "member (JObj ps) k = Inr (get_prop ps k)"
| "member (JBool b) k = Inr JUndefined"
| "member (JNum n) k = Inr JUndefined"
| "member (JStr s) k = Inr JUndefined"
| "member (JArr xs) k = Inr JUndefined"

text \<open>\<^verbatim>\<open>obj[k] = v\<close>: an existing key keeps its place, a new key goes last.\<close>

fun set_prop :: "string \<Rightarrow> jsval \<Rightarrow> props \<Rightarrow> props" where
  "set_prop k v [] = [(k, v)]"
| "set_prop k v (p # ps) = (if fst p = k then (k, v) # ps else p # set_prop k v ps)"

text \<open>\<^verbatim>\<open>delete obj[k]\<close>.\<close>

definition delete_prop :: "string \<Rightarrow> props \<Rightarrow> props" where
  "delete_prop k ps = filter (\<lambda>p. fst p \<noteq> k) ps"

text \<open>Decimal rendering of an index, the key under which an array element is stored.\<close>

definition digit :: "nat \<Rightarrow> char" where
  "digit n = ''0123456789'' ! n"

function show_nat :: "nat \<Rightarrow> string" where
  "show_nat n = (if n < 10 then [digit n] else show_nat (n div 10) @ [digit (n mod 10)])"
  by pat_completeness auto
termination
  by (relation "measure id") auto

text \<open>
  The own enumerable properties of a value, in enumeration order: what
  \<^verbatim>\<open>Object.assign\<close> copies from a source. An array and a string give their elements
  under their indices (for a string, one property per character: exact for ASCII
  text); the other primitives have none.
\<close>

fun own_props :: "jsval \<Rightarrow> props" where
  "own_props (JObj ps) = ps"
| "own_props (JArr xs) = zip (map show_nat [0..<length xs]) xs"
| "own_props (JStr s) = zip (map show_nat [0..<length s]) (map (\<lambda>c. JStr [c]) s)"
| "own_props JUndefined = []"
| "own_props JNull = []"
| "own_props (JBool b) = []"
| "own_props (JNum n) = []"

text \<open>\<^verbatim>\<open>String.prototype.endsWith\<close>.\<close>

definition endsWith :: "string \<Rightarrow> string \<Rightarrow> bool" where
  "endsWith s suffix =
     (length suffix \<le> length s \<and> drop (length s - length suffix) s = suffix)"


section \<open>The host: libraries the module requires\<close>

text \<open>
  \<^verbatim>\<open>typescript\<close>, \<^verbatim>\<open>crypto\<close> and \<^verbatim>\<open>JSON\<close> are not part of the repository. Each
  function and constant the module uses from them is a field of the host, and every
  theorem below holds for all hosts.

  \<^verbatim>\<open>transpileModule\<close> returns a \<^verbatim>\<open>TranspileOutput\<close> or throws; the module reads
  only \<^verbatim>\<open>outputText\<close> of what is returned.
\<close>

record transpile_options =
  compilerOptions :: jsval
  fileName :: string

record transpile_output =
  outputText :: string
  diagnostics :: "string list"

record host =
  tsc_ModuleKind_CommonJS :: jsval
  tsc_JsxEmit_React :: jsval
  tsc_transpileModule :: "string \<Rightarrow> transpile_options \<Rightarrow> error + transpile_output"
  crypto_md5 :: "string \<Rightarrow> string"
  JSON_stringify :: "jsval \<Rightarrow> string"

text \<open>
  What the file system holds when the module is loaded: the bytes of the module's own
  file, whether \<^verbatim>\<open>tsconfig.json\<close> exists at the application root, and what
  \<^verbatim>\<open>require\<close> of it does (throw, on a read or parse failure, or give the parsed
  value).
\<close>

record environment =
  readFileSync_filename :: string
  existsSync_tsconfigPath :: bool
  require_tsconfigPath :: "error + jsval"


section \<open>Module state\<close>

text \<open>
  The module keeps two variables, \<^verbatim>\<open>THIS_FILE\<close> and \<^verbatim>\<open>compilerConfig\<close>. Objects have
  identity: \<^verbatim>\<open>compilerOptions = compilerConfig\<close> in \<^verbatim>\<open>process\<close> makes a second name for
  the same object, and \<^verbatim>\<open>Object.assign({}, compilerConfig)\<close> makes a new one. So values
  held in variables live in a store, a variable is the address of its value, and an
  assignment between variables copies the address. The store grows at its end.
\<close>

type_synonym addr = nat

record module =
  THIS_FILE :: string
  heap :: "jsval list"
  compilerConfig :: addr

definition alloc :: "jsval \<Rightarrow> module \<Rightarrow> addr \<times> module" where
  "alloc v m = (length (heap m), m\<lparr>heap := heap m @ [v]\<rparr>)"

text \<open>
  A write to the properties of the object at an address (\<^verbatim>\<open>obj[k] = v\<close>,
  \<^verbatim>\<open>delete obj[k]\<close>). The module writes only to the object it has just created; a
  cell that holds no object is left as it is.
\<close>

definition update_at :: "addr \<Rightarrow> (props \<Rightarrow> props) \<Rightarrow> module \<Rightarrow> module" where
  "update_at a f m =
     (case heap m ! a of
        JObj ps \<Rightarrow> m\<lparr>heap := (heap m)[a := JObj (f ps)]\<rparr>
      | _ \<Rightarrow> m)"

text \<open>
  \<^verbatim>\<open>Object.assign(target, source)\<close>: every own enumerable property of the source is
  assigned to the target, in order.
\<close>

definition Object_assign :: "addr \<Rightarrow> addr \<Rightarrow> module \<Rightarrow> module" where
  "Object_assign target source m =
     update_at target (\<lambda>ps. fold (\<lambda>(k, v). set_prop k v) (own_props (heap m ! source)) ps) m"

definition well_formed :: "module \<Rightarrow> bool" where
  "well_formed m = (compilerConfig m < length (heap m))"


section \<open>Loading the module\<close>

text \<open>
  Lines 9 to 26: the default configuration, replaced by \<^verbatim>\<open>tsconfig.compilerOptions\<close>
  when the file exists, loads, and both \<^verbatim>\<open>tsconfig\<close> and that property are truthy.
  The \<^verbatim>\<open>try\<close> block is a computation that may throw; the empty \<^verbatim>\<open>catch\<close> resumes
  with the state before it.
\<close>

definition default_config :: "host \<Rightarrow> jsval" where
  "default_config h =
     JObj [(''module'', tsc_ModuleKind_CommonJS h), (''jsx'', tsc_JsxEmit_React h)]"

definition try_block :: "environment \<Rightarrow> module \<Rightarrow> error + module" where
  "try_block env m =
     (case require_tsconfigPath env of
        Inl e \<Rightarrow> Inl e
      | Inr tsconfig \<Rightarrow>
          (case (if truthy tsconfig then member tsconfig ''compilerOptions''
                 else Inr tsconfig) of
             Inl e \<Rightarrow> Inl e
           | Inr c \<Rightarrow>
               if truthy c
               then (let (a, m') = alloc c m in Inr (m'\<lparr>compilerConfig := a\<rparr>))
               else Inr m))"

definition load :: "host \<Rightarrow> environment \<Rightarrow> error + module" where
  "load h env =
     (let (a, m) = alloc (default_config h)
                     \<lparr>THIS_FILE = readFileSync_filename env, heap = [], compilerConfig = 0\<rparr>;
          m = m\<lparr>compilerConfig := a\<rparr>
      in if existsSync_tsconfigPath env
         then (case try_block env m of Inl e \<Rightarrow> Inr m | Inr m' \<Rightarrow> Inr m')
         else Inr m)"

text \<open>The value of the process-wide configuration.\<close>

definition config_value :: "module \<Rightarrow> jsval" where
  "config_value m = heap m ! compilerConfig m"


section \<open>process\<close>

text \<open>
  Lines 29 to 47. The result is the returned text or the exception thrown, together with
  the module state after the call. The parameter \<^verbatim>\<open>config\<close> is not used.
\<close>

definition process ::
  "host \<Rightarrow> module \<Rightarrow> string \<Rightarrow> string \<Rightarrow> jsval \<Rightarrow> props \<Rightarrow> (error + string) \<times> module" where
  "process h m src path config options =
     (if endsWith path ''.ts'' \<or> endsWith path ''.tsx''
      then
        (let (compilerOptions, m') =
               (if truthy (get_prop options ''instrument'')
                then (let (a, m1) = alloc (JObj []) m;
                          m2 = Object_assign a (compilerConfig m) m1;
                          m3 = update_at a (delete_prop ''sourceMap'') m2;
                          m4 = update_at a (set_prop ''inlineSourceMap'' (JBool True)) m3;
                          m5 = update_at a (set_prop ''inlineSources'' (JBool True)) m4
                      in (a, m5))
                else (compilerConfig m, m))
         in (case tsc_transpileModule h src
                    \<lparr>compilerOptions = heap m' ! compilerOptions, fileName = path\<rparr> of
               Inl e \<Rightarrow> (Inl e, m')
             | Inr tsTranspiled \<Rightarrow> (Inr (outputText tsTranspiled), m')))
      else (Inr src, m))"


section \<open>getCacheKey\<close>

text \<open>
  Lines 48 to 63. A \<^verbatim>\<open>Hash\<close> object holds the bytes it was fed; \<^verbatim>\<open>update\<close> appends to them and
  \<^verbatim>\<open>digest('hex')\<close> renders the digest of all of them, two lowercase hexadecimal
  digits a byte.
\<close>

datatype hash = Hash string

definition createHash_md5 :: hash where
  "createHash_md5 = Hash []"

fun update :: "string \<Rightarrow> hash \<Rightarrow> hash" where
  "update data (Hash buf) = Hash (buf @ data)"

definition hexdigit :: "nat \<Rightarrow> char" where
  "hexdigit n = ''0123456789abcdef'' ! n"

definition hex_byte :: "char \<Rightarrow> string" where
  "hex_byte c = [hexdigit (of_char c div 16), hexdigit (of_char c mod 16)]"

definition hex :: "string \<Rightarrow> string" where
  "hex bs = concat (map hex_byte bs)"

fun digest_hex :: "host \<Rightarrow> hash \<Rightarrow> string" where
  "digest_hex h (Hash buf) = hex (crypto_md5 h buf)"

definition NUL :: string where
  "NUL = [CHR 0x00]"

definition getCacheKey ::
  "host \<Rightarrow> module \<Rightarrow> string \<Rightarrow> string \<Rightarrow> string \<Rightarrow> props \<Rightarrow> string \<times> module" where
  "getCacheKey h m fileData filePath configStr options =
     (let x = createHash_md5;
          x = update (THIS_FILE m) x;
          x = update NUL x;
          x = update fileData x;
          x = update NUL x;
          x = update filePath x;
          x = update NUL x;
          x = update configStr x;
          x = update NUL x;
          x = update (JSON_stringify h (heap m ! compilerConfig m)) x;
          x = update NUL x;
          x = update (if truthy (get_prop options ''instrument'') then ''instrument'' else '''') x
      in (digest_hex h x, m))"


section \<open>The specification's vocabulary\<close>

text \<open>
  The ordered concatenation of fields with a separator between consecutive fields.
\<close>

fun join_fields :: "string \<Rightarrow> string list \<Rightarrow> string" where
  "join_fields sep [] = []"
| "join_fields sep [x] = x"
| "join_fields sep (x # y # ys) = x @ sep @ join_fields sep (y # ys)"

text \<open>The sixth field: the literal marker, or the empty marker.\<close>

definition instrument_marker :: "props \<Rightarrow> string" where
  "instrument_marker options =
     (if truthy (get_prop options ''instrument'') then ''instrument'' else [])"

text \<open>The six fields of the cache key, in the specification's order.\<close>

definition cache_key_fields ::
  "host \<Rightarrow> module \<Rightarrow> string \<Rightarrow> string \<Rightarrow> string \<Rightarrow> props \<Rightarrow> string list" where
  "cache_key_fields h m fileData filePath configStr options =
     [THIS_FILE m, fileData, filePath, configStr, JSON_stringify h (config_value m),
      instrument_marker options]"

text \<open>
  The keys of a value: those of its properties when it is an object; a value that is
  no object has none.
\<close>

definition has_key :: "jsval \<Rightarrow> string \<Rightarrow> bool" where
  "has_key v k = (case v of JObj ps \<Rightarrow> k \<in> fst ` set ps | _ \<Rightarrow> False)"

text \<open>
  The effective compiler configuration: the process-wide one, or, under
  instrumentation, a clone of it without \<^verbatim>\<open>sourceMap\<close> and with
  \<^verbatim>\<open>inlineSourceMap\<close> and \<^verbatim>\<open>inlineSources\<close> set to true.
\<close>

definition effective_configuration :: "module \<Rightarrow> props \<Rightarrow> jsval" where
  "effective_configuration m options =
     (if truthy (get_prop options ''instrument'')
      then JObj (set_prop ''inlineSources'' (JBool True)
                  (set_prop ''inlineSourceMap'' (JBool True)
                    (delete_prop ''sourceMap'' (own_props (config_value m)))))
      else config_value m)"

text \<open>An object holds each of its keys once.\<close>

definition distinct_keys :: "jsval \<Rightarrow> bool" where
  "distinct_keys v = distinct (map fst (own_props v))"




section \<open>A concrete host\<close>

text \<open>
  Stand-ins for the libraries, to run the module on concrete inputs. The compiler
  stand-in returns the source followed by a comment naming the file and telling whether
  inline source maps were requested; the digest stand-in has sixteen bytes, of which the
  first two are the length and the byte sum of its input. The enumeration constants are
  those of the TypeScript release: \<^verbatim>\<open>ModuleKind.CommonJS = 1\<close>,
  \<^verbatim>\<open>JsxEmit.React = 2\<close>.
\<close>

definition sample_transpileModule :: "string \<Rightarrow> transpile_options \<Rightarrow> error + transpile_output" where
  "sample_transpileModule src t =
     Inr \<lparr>outputText =
            src @ '' // '' @ fileName t @
            (if member (compilerOptions t) ''inlineSourceMap'' = Inr (JBool True)
             then '' inline'' else []),
          diagnostics = []\<rparr>"

definition sample_md5 :: "string \<Rightarrow> string" where
  "sample_md5 bs =
     [char_of (length bs), char_of (sum_list (map of_char bs) :: nat),
      CHR 0x00, CHR 0x00, CHR 0x00, CHR 0x00, CHR 0x00, CHR 0x00, CHR 0x00,
      CHR 0x00, CHR 0x00, CHR 0x00, CHR 0x00, CHR 0x00, CHR 0x00, CHR 0x00]"

definition sample_stringify :: "jsval \<Rightarrow> string" where
  "sample_stringify v = concat (map (\<lambda>p. fst p @ '';'') (own_props v))"

definition sample_host :: host where
  "sample_host =
     \<lparr>tsc_ModuleKind_CommonJS = JNum 1,
      tsc_JsxEmit_React = JNum 2,
      tsc_transpileModule = sample_transpileModule,
      crypto_md5 = sample_md5,
      JSON_stringify = sample_stringify\<rparr>"

text \<open>
  A project whose \<^verbatim>\<open>tsconfig.json\<close> gives \<^verbatim>\<open>compilerOptions\<close> the value \<open>c\<close>, a
  project without the file, one whose file does not parse, and one whose file has no
  \<^verbatim>\<open>compilerOptions\<close>.
\<close>

definition tsconfig_with :: "jsval \<Rightarrow> environment" where
  "tsconfig_with c =
     \<lparr>readFileSync_filename = ''module.exports = {};'',
      existsSync_tsconfigPath = True,
      require_tsconfigPath = Inr (JObj [(''compilerOptions'', c)])\<rparr>"

definition tsconfig_missing :: environment where
  "tsconfig_missing =
     \<lparr>readFileSync_filename = ''module.exports = {};'',
      existsSync_tsconfigPath = False,
      require_tsconfigPath = Inl (Exception ''Cannot find module'')\<rparr>"

definition tsconfig_broken :: environment where
  "tsconfig_broken =
     \<lparr>readFileSync_filename = ''module.exports = {};'',
      existsSync_tsconfigPath = True,
      require_tsconfigPath = Inl (Exception ''Unexpected token'')\<rparr>"

definition tsconfig_without_options :: environment where
  "tsconfig_without_options =
     \<lparr>readFileSync_filename = ''module.exports = {};'',
      existsSync_tsconfigPath = True,
      require_tsconfigPath = Inr (JObj [(''include'', JArr [JStr ''src''])])\<rparr>"

text \<open>
  The module as loaded in a project with
  \<^verbatim>\<open>{"compilerOptions": {"sourceMap": true, "jsx": "react"}}\<close>.
\<close>

definition sample_module :: module where
  "sample_module =
     \<lparr>THIS_FILE = ''module.exports = {};'',
      heap = [JObj [(''module'', JNum 1), (''jsx'', JNum 2)],
              JObj [(''sourceMap'', JBool True), (''jsx'', JStr ''react'')]],
      compilerConfig = 1\<rparr>"

text \<open>
  A host whose compiler recovers from a syntax error the way the \<^verbatim>\<open>TranspileOutput\<close>
  interface provides for: it returns the text it could emit and lists the error among the
  diagnostics.
\<close>

definition recovering_host :: host where
  "recovering_host =
     sample_host\<lparr>tsc_transpileModule :=
       (\<lambda>src t. Inr \<lparr>outputText = ''var  = ;'',
                      diagnostics = [''Variable declaration expected.'']\<rparr>)\<rparr>"

text \<open>A host whose compiler throws.\<close>

definition throwing_host :: host where
  "throwing_host =
     sample_host\<lparr>tsc_transpileModule := (\<lambda>src t. Inl (Exception ''Debug Failure.''))\<rparr>"


section \<open>Properties of the value operations\<close>



lemma get_prop_set_prop:
  "get_prop (set_prop k v ps) k' = (if k' = k then v else get_prop ps k')"
  by (induction ps) (auto simp: get_prop_def)

lemma get_prop_delete_prop:
  "get_prop (delete_prop k ps) k' = (if k' = k then JUndefined else get_prop ps k')"
  by (induction ps) (auto simp: get_prop_def delete_prop_def)

text \<open>
  What the compiler reads in the configuration built under instrumentation: no
  \<^verbatim>\<open>sourceMap\<close>, the two inline options true, and every other option as the
  process-wide configuration has it.
\<close>

lemma effective_configuration_instrument:
  assumes "truthy (get_prop options ''instrument'')"
  shows "member (effective_configuration m options) k =
     Inr (if k = ''sourceMap'' then JUndefined
          else if k = ''inlineSourceMap'' \<or> k = ''inlineSources'' then JBool True
          else get_prop (own_props (config_value m)) k)"
  using assms
  by (auto simp: effective_configuration_def get_prop_set_prop get_prop_delete_prop)


section \<open>Properties of loading\<close>

lemma load_total: "\<exists>m. load h env = Inr m"
  by (simp add: load_def alloc_def Let_def split: sum.splits)

lemma load_well_formed: "load h env = Inr m \<Longrightarrow> well_formed m"
  by (auto simp: load_def try_block_def alloc_def Let_def well_formed_def
      split: sum.splits if_splits)

lemma load_THIS_FILE: "load h env = Inr m \<Longrightarrow> THIS_FILE m = readFileSync_filename env"
  by (auto simp: load_def try_block_def alloc_def Let_def split: sum.splits if_splits)

lemma load_truthy: "load h env = Inr m \<Longrightarrow> truthy (config_value m)"
  by (auto simp: load_def try_block_def alloc_def Let_def config_value_def default_config_def
      split: sum.splits if_splits)

lemma member_absent:
  "\<not> has_key v k \<Longrightarrow> member v k = Inr c \<Longrightarrow> c = JUndefined"
  by (cases v) (auto simp: has_key_def get_prop_def map_of_eq_None_iff [THEN iffD2])

lemma load_default:
  assumes "load h env = Inr m"
    and "\<not> existsSync_tsconfigPath env \<or> (\<exists>e. require_tsconfigPath env = Inl e) \<or>
         (\<exists>v. require_tsconfigPath env = Inr v \<and> \<not> has_key v ''compilerOptions'')"
  shows "config_value m = default_config h"
  using assms
  by (auto simp: load_def try_block_def alloc_def Let_def config_value_def
      split: sum.splits if_splits dest: member_absent)

lemma load_distinct_keys:
  assumes "load h env = Inr m"
    and "\<And>tsconfig c. require_tsconfigPath env = Inr tsconfig \<Longrightarrow>
           member tsconfig ''compilerOptions'' = Inr c \<Longrightarrow> distinct_keys c"
  shows "distinct_keys (config_value m)"
  using assms
  by (auto simp: load_def try_block_def alloc_def Let_def config_value_def default_config_def
      distinct_keys_def split: sum.splits if_splits)

lemma load_compilerOptions:
  assumes "load h env = Inr m" and "existsSync_tsconfigPath env"
    and "require_tsconfigPath env = Inr (JObj ps)"
    and "map_of ps ''compilerOptions'' = Some c"
  shows "config_value m = (if truthy c then c else default_config h)"
  using assms
  by (auto simp: load_def try_block_def alloc_def Let_def config_value_def get_prop_def
      split: sum.splits if_splits)

lemma load_sample:
  "load sample_host
     (tsconfig_with (JObj [(''sourceMap'', JBool True), (''jsx'', JStr ''react'')])) =
   Inr sample_module"
  by (simp add: load_def try_block_def alloc_def sample_module_def tsconfig_with_def
      sample_host_def default_config_def get_prop_def)

lemma sample_module_well_formed: "well_formed sample_module"
  by (simp add: well_formed_def sample_module_def)



section \<open>Properties of process\<close>

lemma process_passthrough:
  "\<not> endsWith path ''.ts'' \<Longrightarrow> \<not> endsWith path ''.tsx'' \<Longrightarrow>
   process h m src path config options = (Inr src, m)"
  by (simp add: process_def)

lemma process_heap:
  "\<exists>new. heap (snd (process h m src path config options)) = heap m @ new"
  by (auto simp: process_def alloc_def Object_assign_def update_at_def Let_def
      split: sum.splits)

lemma process_frame:
  shows process_THIS_FILE: "THIS_FILE (snd (process h m src path config options)) = THIS_FILE m"
    and process_compilerConfig:
      "compilerConfig (snd (process h m src path config options)) = compilerConfig m"
  by (auto simp: process_def alloc_def Object_assign_def update_at_def Let_def
      split: sum.splits)

lemma process_config_value:
  assumes "well_formed m"
  shows "config_value (snd (process h m src path config options)) = config_value m"
proof -
  obtain new where "heap (snd (process h m src path config options)) = heap m @ new"
    using process_heap by blast
  with assms show ?thesis
    by (simp add: config_value_def process_compilerConfig well_formed_def nth_append)
qed

lemma process_well_formed:
  assumes "well_formed m"
  shows "well_formed (snd (process h m src path config options))"
proof -
  obtain new where "heap (snd (process h m src path config options)) = heap m @ new"
    using process_heap by blast
  with assms show ?thesis
    by (simp add: well_formed_def process_compilerConfig)
qed

lemma process_plain_call:
  assumes "\<not> truthy (get_prop options ''instrument'')"
    and "endsWith path ''.ts'' \<or> endsWith path ''.tsx''"
  shows "fst (process h m src path config options) =
     (case tsc_transpileModule h src \<lparr>compilerOptions = config_value m, fileName = path\<rparr> of
        Inl e \<Rightarrow> Inl e
      | Inr tsTranspiled \<Rightarrow> Inr (outputText tsTranspiled))"
  using assms by (auto simp: process_def config_value_def split: sum.splits)


lemma process_one_call:
  assumes "endsWith path ''.ts'' \<or> endsWith path ''.tsx''"
  shows "\<exists>t. fileName t = path \<and>
     process h m src path config options =
       (case tsc_transpileModule h src t of
          Inl e \<Rightarrow> Inl e
        | Inr tsTranspiled \<Rightarrow> Inr (outputText tsTranspiled),
        snd (process h m src path config options))"
proof (cases "truthy (get_prop options ''instrument'')")
  case False
  with assms show ?thesis
    by (intro exI [of _ "\<lparr>compilerOptions = heap m ! compilerConfig m, fileName = path\<rparr>"])
      (auto simp: process_def split: sum.splits)
next
  case True
  define m' where "m' = snd (process h m src path config options)"
  with assms True show ?thesis
    by (intro exI [of _ "\<lparr>compilerOptions = heap m' ! length (heap m), fileName = path\<rparr>"])
      (auto simp: process_def alloc_def Let_def split: sum.splits prod.splits)
qed


section \<open>Properties of getCacheKey\<close>

lemma getCacheKey_key:
  "fst (getCacheKey h m fileData filePath configStr options) =
     hex (crypto_md5 h
       (join_fields NUL (cache_key_fields h m fileData filePath configStr options)))"
  by (simp add: getCacheKey_def createHash_md5_def cache_key_fields_def config_value_def
      instrument_marker_def)

lemma getCacheKey_state: "snd (getCacheKey h m fileData filePath configStr options) = m"
  by (simp add: getCacheKey_def Let_def)









text \<open>
  A null byte inside \<^verbatim>\<open>filePath\<close> can stand for the separator: two calls that differ
  in \<^verbatim>\<open>fileData\<close> and in \<^verbatim>\<open>filePath\<close> feed the hash the same bytes, whatever the
  digest.
\<close>

lemma separator_ambiguity:
  "getCacheKey h m ''a'' (''b'' @ CHR 0x00 # ''c'') configStr options =
   getCacheKey h m (''a'' @ CHR 0x00 # ''b'') ''c'' configStr options"
  by (simp add: getCacheKey_def createHash_md5_def NUL_def)

text \<open>
  A digest of sixteen bytes cannot tell all file contents apart: for every such digest
  two values of \<^verbatim>\<open>fileData\<close> share a key, all other arguments being equal.
\<close>

lemma digest_collision:
  assumes len: "\<And>x. length (crypto_md5 h x) = 16"
  shows "\<exists>fd fd'. fd \<noteq> fd' \<and>
     fst (getCacheKey h m fd filePath configStr options) =
     fst (getCacheKey h m fd' filePath configStr options)"
proof (rule ccontr)
  assume "\<not> ?thesis"
  then have "inj (\<lambda>fd. fst (getCacheKey h m fd filePath configStr options))"
    by (auto simp: inj_on_def)
  moreover have "range (\<lambda>fd. fst (getCacheKey h m fd filePath configStr options))
      \<subseteq> hex ` {bs. set bs \<subseteq> UNIV \<and> length bs = 16}"
    using len by (auto simp: getCacheKey_key)
  then have "finite (range (\<lambda>fd. fst (getCacheKey h m fd filePath configStr options)))"
    using finite_lists_length_eq [of "UNIV :: char set" 16]
    by (auto intro: finite_subset)
  ultimately have "finite (UNIV :: string set)" by (rule finite_imageD [rotated])
  then show False by (simp add: infinite_UNIV_listI)
qed


section \<open>The claims\<close>





text \<open>
  Claim C3. \<^verbatim>\<open>getCacheKey\<close> is deterministic and has no side effect: it returns the
  module state it was given, so a second call with the same arguments returns the same
  string; \<^verbatim>\<open>process\<close> leaves both module variables and every object that existed
  before the call as they were, so a call of \<^verbatim>\<open>getCacheKey\<close> after it still returns
  the same string.
\<close>

theorem getCacheKey_deterministic:
  assumes "well_formed m"
  shows "snd (getCacheKey h m fileData filePath configStr options) = m \<and>
     getCacheKey h (snd (getCacheKey h m fileData filePath configStr options))
        fileData filePath configStr options =
     getCacheKey h m fileData filePath configStr options \<and>
     THIS_FILE (snd (process h m src path config options')) = THIS_FILE m \<and>
     compilerConfig (snd (process h m src path config options')) = compilerConfig m \<and>
     take (length (heap m)) (heap (snd (process h m src path config options'))) = heap m \<and>
     fst (getCacheKey h (snd (process h m src path config options'))
        fileData filePath configStr options) =
     fst (getCacheKey h m fileData filePath configStr options)"
proof -
  obtain new where "heap (snd (process h m src path config options')) = heap m @ new"
    using process_heap by blast
  then have "take (length (heap m)) (heap (snd (process h m src path config options'))) = heap m"
    by simp
  moreover have "fst (getCacheKey h (snd (process h m src path config options'))
        fileData filePath configStr options) =
     fst (getCacheKey h m fileData filePath configStr options)"
    using assms
    by (simp add: getCacheKey_key cache_key_fields_def process_THIS_FILE process_config_value)
  ultimately show ?thesis
    by (simp add: getCacheKey_state process_THIS_FILE process_compilerConfig)
qed

theorem getCacheKey_deterministic_witness:
  "well_formed sample_module \<and>
   getCacheKey sample_host sample_module ''const x = 1;'' ''App.tsx'' ''{}'' [] =
     (''3c410000000000000000000000000000'', sample_module) \<and>
   fst (getCacheKey sample_host
          (snd (process sample_host sample_module ''<div/>'' ''App.tsx'' JNull
                  [(''instrument'', JBool True)]))
          ''const x = 1;'' ''App.tsx'' ''{}'' []) =
     ''3c410000000000000000000000000000''"
proof -
  have key: "fst (getCacheKey sample_host sample_module ''const x = 1;'' ''App.tsx'' ''{}'' []) =
      ''3c410000000000000000000000000000''"
    by (simp add: getCacheKey_def createHash_md5_def NUL_def get_prop_def sample_host_def
        sample_md5_def sample_stringify_def sample_module_def hex_def hex_byte_def hexdigit_def)
  from getCacheKey_deterministic [OF sample_module_well_formed, of sample_host
      "''const x = 1;''" "''App.tsx''" "''{}''" "[]" "''<div/>''" "''App.tsx''" JNull
      "[(''instrument'', JBool True)]"] key
  show ?thesis
    by (simp add: sample_module_well_formed prod_eq_iff)
qed

text \<open>
  Claim C4. When \<^verbatim>\<open>filePath\<close> ends neither in \<^verbatim>\<open>.ts\<close> nor in \<^verbatim>\<open>.tsx\<close>,
  \<^verbatim>\<open>process\<close> returns \<^verbatim>\<open>sourceText\<close> unchanged, for every configuration and every
  options record.
\<close>

theorem process_identity:
  assumes "\<not> endsWith path ''.ts''" and "\<not> endsWith path ''.tsx''"
  shows "fst (process h m src path config options) = Inr src"
  using assms by (simp add: process_passthrough)

theorem process_identity_witness:
  "\<not> endsWith ''foo.js'' ''.ts'' \<and> \<not> endsWith ''foo.js'' ''.tsx'' \<and>
   fst (process sample_host sample_module ''let x = <a/>;'' ''foo.js'' JNull []) =
     Inr ''let x = <a/>;''"
proof -
  have ts: "\<not> endsWith ''foo.js'' ''.ts''" and tsx: "\<not> endsWith ''foo.js'' ''.tsx''"
    by (simp_all add: endsWith_def)
  from process_identity [OF ts tsx] ts tsx show ?thesis by simp
qed



text \<open>
  Claim C6. Loading always yields a module state, never an error; and when
  \<^verbatim>\<open>tsconfig.json\<close> is missing, fails to load, or has no \<^verbatim>\<open>compilerOptions\<close> key,
  the process-wide configuration is the default
  \<^verbatim>\<open>{ module: CommonJS, jsx: React }\<close>.
\<close>

theorem load_falls_back:
  "\<exists>m. load h env = Inr m \<and>
     (\<not> existsSync_tsconfigPath env \<or>
      (\<exists>e. require_tsconfigPath env = Inl e) \<or>
      (\<exists>v. require_tsconfigPath env = Inr v \<and> \<not> has_key v ''compilerOptions'')
      \<longrightarrow> config_value m =
            JObj [(''module'', tsc_ModuleKind_CommonJS h), (''jsx'', tsc_JsxEmit_React h)])"
proof -
  obtain m where m: "load h env = Inr m" using load_total by blast
  with load_default [OF m] show ?thesis by (auto simp: default_config_def)
qed

theorem load_falls_back_witness:
  "(\<exists>m. load sample_host tsconfig_missing = Inr m \<and>
        config_value m = JObj [(''module'', JNum 1), (''jsx'', JNum 2)]) \<and>
   (\<exists>m. load sample_host tsconfig_broken = Inr m \<and>
        config_value m = JObj [(''module'', JNum 1), (''jsx'', JNum 2)]) \<and>
   (\<exists>m. load sample_host tsconfig_without_options = Inr m \<and>
        config_value m = JObj [(''module'', JNum 1), (''jsx'', JNum 2)])"
proof -
  have missing: "\<not> existsSync_tsconfigPath tsconfig_missing"
    by (simp add: tsconfig_missing_def)
  have broken: "\<exists>e. require_tsconfigPath tsconfig_broken = Inl e"
    by (simp add: tsconfig_broken_def)
  have without: "\<exists>v. require_tsconfigPath tsconfig_without_options = Inr v \<and>
      \<not> has_key v ''compilerOptions''"
    by (simp add: tsconfig_without_options_def has_key_def)
  from load_falls_back [of sample_host tsconfig_missing] missing
    load_falls_back [of sample_host tsconfig_broken] broken
    load_falls_back [of sample_host tsconfig_without_options] without
  show ?thesis by (simp add: sample_host_def)
qed

text \<open>
  Claim C7, as stated: a syntactically invalid source makes \<^verbatim>\<open>process\<close> fail with
  an error instead of returning text. \<^verbatim>\<open>process\<close> never looks at what the compiler
  reports: where the compiler returns a \<^verbatim>\<open>TranspileOutput\<close> for the malformed
  \<^verbatim>\<open>const = ;\<close> and lists the syntax error in it, \<^verbatim>\<open>process\<close> returns the
  \<^verbatim>\<open>outputText\<close>.
\<close>

theorem process_ignores_diagnostics:
  "tsc_transpileModule recovering_host ''const = ;''
      \<lparr>compilerOptions = config_value sample_module, fileName = ''broken.ts''\<rparr> =
     Inr \<lparr>outputText = ''var  = ;'', diagnostics = [''Variable declaration expected.'']\<rparr> \<and>
   fst (process recovering_host sample_module ''const = ;'' ''broken.ts'' JNull []) =
     Inr ''var  = ;''"
  by (simp add: recovering_host_def process_def endsWith_def get_prop_def)

text \<open>
  Claim C7, amended. For a path ending in \<^verbatim>\<open>.ts\<close> or \<^verbatim>\<open>.tsx\<close>, \<^verbatim>\<open>process\<close>
  makes one call of the compiler, for that file name; it returns the \<^verbatim>\<open>outputText\<close>
  of what the call returns, whatever the diagnostics, and fails exactly when the call
  throws, with the compiler's own error. It raises no error of its own, for syntax
  errors or for type errors.
\<close>

theorem process_fails_only_in_compiler:
  assumes "endsWith path ''.ts'' \<or> endsWith path ''.tsx''"
  shows "\<exists>t. fileName t = path \<and>
     fst (process h m src path config options) =
       (case tsc_transpileModule h src t of
          Inl e \<Rightarrow> Inl e
        | Inr tsTranspiled \<Rightarrow> Inr (outputText tsTranspiled))"
proof -
  from process_one_call [OF assms] obtain t where "fileName t = path"
    and "process h m src path config options =
       (case tsc_transpileModule h src t of
          Inl e \<Rightarrow> Inl e
        | Inr tsTranspiled \<Rightarrow> Inr (outputText tsTranspiled),
        snd (process h m src path config options))"
    by blast
  then show ?thesis by (metis fst_conv)
qed

theorem process_fails_only_in_compiler_witness:
  "(endsWith ''App.ts'' ''.ts'' \<or> endsWith ''App.ts'' ''.tsx'') \<and>
   (\<exists>t. fileName t = ''App.ts'' \<and>
      fst (process throwing_host sample_module ''let x: number = 1;'' ''App.ts'' JNull []) =
        (case tsc_transpileModule throwing_host ''let x: number = 1;'' t of
           Inl e \<Rightarrow> Inl e
         | Inr tsTranspiled \<Rightarrow> Inr (outputText tsTranspiled))) \<and>
   fst (process throwing_host sample_module ''let x: number = 1;'' ''App.ts'' JNull []) =
     Inl (Exception ''Debug Failure.'')"
proof -
  have ts: "endsWith ''App.ts'' ''.ts'' \<or> endsWith ''App.ts'' ''.tsx''"
    by (simp add: endsWith_def)
  from process_fails_only_in_compiler [OF ts, of throwing_host sample_module
      "''let x: number = 1;''" JNull "[]"]
  obtain t where t: "fileName t = ''App.ts''"
      "fst (process throwing_host sample_module ''let x: number = 1;'' ''App.ts'' JNull []) =
        (case tsc_transpileModule throwing_host ''let x: number = 1;'' t of
           Inl e \<Rightarrow> Inl e
         | Inr tsTranspiled \<Rightarrow> Inr (outputText tsTranspiled))"
    by blast
  from t(2) have "fst (process throwing_host sample_module ''let x: number = 1;'' ''App.ts'' JNull []) =
      Inl (Exception ''Debug Failure.'')"
    by (simp add: throwing_host_def)
  with ts t show ?thesis by blast
qed

text \<open>
  Claim C8. Neither operation changes the process-wide configuration.
  \<^verbatim>\<open>process\<close> under instrumentation writes to a fresh object only: after any call the
  variable \<^verbatim>\<open>compilerConfig\<close> holds the same object with the same properties, its
  \<^verbatim>\<open>sourceMap\<close> among them, and a later call without instrumentation hands the
  compiler that original configuration.
\<close>

theorem process_preserves_config:
  assumes "well_formed m"
    and "\<not> truthy (get_prop options' ''instrument'')"
    and "endsWith path' ''.ts'' \<or> endsWith path' ''.tsx''"
  shows "compilerConfig (snd (process h m src path config options)) = compilerConfig m \<and>
     config_value (snd (process h m src path config options)) = config_value m \<and>
     member (config_value (snd (process h m src path config options))) ''sourceMap'' =
       member (config_value m) ''sourceMap'' \<and>
     config_value (snd (getCacheKey h m fileData filePath configStr options)) = config_value m \<and>
     fst (process h (snd (process h m src path config options)) src' path' config' options') =
       (case tsc_transpileModule h src' \<lparr>compilerOptions = config_value m, fileName = path'\<rparr> of
          Inl e \<Rightarrow> Inl e
        | Inr tsTranspiled \<Rightarrow> Inr (outputText tsTranspiled))"
  using assms(1) process_plain_call [OF assms(2,3)]
  by (simp add: process_compilerConfig process_config_value getCacheKey_state)

theorem process_preserves_config_witness:
  "well_formed sample_module \<and>
   \<not> truthy (get_prop [] ''instrument'') \<and>
   (endsWith ''App.tsx'' ''.ts'' \<or> endsWith ''App.tsx'' ''.tsx'') \<and>
   member (config_value (snd (process sample_host sample_module ''<div/>'' ''App.tsx'' JNull
                                [(''instrument'', JBool True)]))) ''sourceMap'' =
     Inr (JBool True) \<and>
   fst (process sample_host
          (snd (process sample_host sample_module ''<div/>'' ''App.tsx'' JNull
                  [(''instrument'', JBool True)]))
          ''<div/>'' ''App.tsx'' JNull []) =
     Inr ''<div/> // App.tsx''"
proof -
  have plain: "\<not> truthy (get_prop [] ''instrument'')"
    by (simp add: get_prop_def)
  have tsx: "endsWith ''App.tsx'' ''.ts'' \<or> endsWith ''App.tsx'' ''.tsx''"
    by (simp add: endsWith_def)
  have sourceMap: "member (config_value sample_module) ''sourceMap'' = Inr (JBool True)"
    by (simp add: config_value_def sample_module_def get_prop_def)
  have compiled:
    "(case tsc_transpileModule sample_host ''<div/>''
            \<lparr>compilerOptions = config_value sample_module, fileName = ''App.tsx''\<rparr> of
        Inl e \<Rightarrow> Inl e
      | Inr tsTranspiled \<Rightarrow> Inr (outputText tsTranspiled)) = Inr ''<div/> // App.tsx''"
    by (simp add: sample_host_def sample_transpileModule_def config_value_def sample_module_def
        get_prop_def)
  from process_preserves_config [OF sample_module_well_formed plain tsx, of sample_host
      "''<div/>''" "''App.tsx''" JNull "[(''instrument'', JBool True)]" "[]" "[]" "[]"
      "''<div/>''" JNull]
    sourceMap compiled plain tsx sample_module_well_formed
  show ?thesis by simp
qed

text \<open>
  Claim C9. Both operations depend on the options record only through the truth of its
  \<^verbatim>\<open>instrument\<close> field: two records that agree on it give the same key and the same
  output, all other arguments being equal.
\<close>

theorem options_only_instrument:
  assumes "truthy (get_prop options ''instrument'') = truthy (get_prop options' ''instrument'')"
  shows "getCacheKey h m fileData filePath configStr options =
         getCacheKey h m fileData filePath configStr options' \<and>
         process h m src path config options = process h m src path config options'"
  using assms by (simp add: getCacheKey_def process_def)

theorem options_only_instrument_witness:
  "truthy (get_prop [(''instrument'', JBool True), (''watch'', JBool False)] ''instrument'') =
   truthy (get_prop [(''cacheDirectory'', JStr ''/tmp/jest''), (''instrument'', JNum 1)]
     ''instrument'') \<and>
   getCacheKey sample_host sample_module ''<div/>'' ''App.tsx'' ''{}''
     [(''instrument'', JBool True), (''watch'', JBool False)] =
   getCacheKey sample_host sample_module ''<div/>'' ''App.tsx'' ''{}''
     [(''cacheDirectory'', JStr ''/tmp/jest''), (''instrument'', JNum 1)] \<and>
   process sample_host sample_module ''<div/>'' ''App.tsx'' JNull
     [(''instrument'', JBool True), (''watch'', JBool False)] =
   process sample_host sample_module ''<div/>'' ''App.tsx'' JNull
     [(''cacheDirectory'', JStr ''/tmp/jest''), (''instrument'', JNum 1)]"
proof -
  have same:
    "truthy (get_prop [(''instrument'', JBool True), (''watch'', JBool False)] ''instrument'') =
     truthy (get_prop [(''cacheDirectory'', JStr ''/tmp/jest''), (''instrument'', JNum 1)]
       ''instrument'')"
    by (simp add: get_prop_def)
  from options_only_instrument [OF same] same show ?thesis by blast
qed

text \<open>
  Claim C10. When \<^verbatim>\<open>tsconfig.json\<close> exists and loads as an object with a
  \<^verbatim>\<open>compilerOptions\<close> property, a truthy value of the property becomes the
  process-wide configuration as it is, a string or a number included, and a falsy value
  (\<^verbatim>\<open>null\<close>, \<^verbatim>\<open>false\<close>, \<^verbatim>\<open>0\<close>, the empty string) leaves the default.
\<close>

theorem load_adopts_truthy_compilerOptions:
  assumes "existsSync_tsconfigPath env"
    and "require_tsconfigPath env = Inr (JObj ps)"
    and "map_of ps ''compilerOptions'' = Some c"
  shows "\<exists>m. load h env = Inr m \<and>
     config_value m =
       (if truthy c then c
        else JObj [(''module'', tsc_ModuleKind_CommonJS h), (''jsx'', tsc_JsxEmit_React h)])"
proof -
  obtain m where m: "load h env = Inr m" using load_total by blast
  from load_compilerOptions [OF m assms] m show ?thesis by (simp add: default_config_def)
qed

theorem load_adopts_truthy_compilerOptions_witness:
  "(\<exists>m. load sample_host (tsconfig_with (JStr ''es5'')) = Inr m \<and> config_value m = JStr ''es5'') \<and>
   (\<exists>m. load sample_host (tsconfig_with (JNum 5)) = Inr m \<and> config_value m = JNum 5) \<and>
   (\<exists>m. load sample_host (tsconfig_with JNull) = Inr m \<and>
        config_value m = JObj [(''module'', JNum 1), (''jsx'', JNum 2)]) \<and>
   (\<exists>m. load sample_host (tsconfig_with (JBool False)) = Inr m \<and>
        config_value m = JObj [(''module'', JNum 1), (''jsx'', JNum 2)]) \<and>
   (\<exists>m. load sample_host (tsconfig_with (JNum 0)) = Inr m \<and>
        config_value m = JObj [(''module'', JNum 1), (''jsx'', JNum 2)]) \<and>
   (\<exists>m. load sample_host (tsconfig_with (JStr [])) = Inr m \<and>
        config_value m = JObj [(''module'', JNum 1), (''jsx'', JNum 2)])"
proof -
  have present: "existsSync_tsconfigPath (tsconfig_with c)"
    and parsed: "require_tsconfigPath (tsconfig_with c) = Inr (JObj [(''compilerOptions'', c)])"
    and found: "map_of [(''compilerOptions'', c)] ''compilerOptions'' = Some c" for c
    by (simp_all add: tsconfig_with_def)
  note adopt = load_adopts_truthy_compilerOptions [where h = sample_host, OF present parsed found]
  from adopt [of "JStr ''es5''"] adopt [of "JNum 5"] adopt [of JNull] adopt [of "JBool False"]
    adopt [of "JNum 0"] adopt [of "JStr []"]
  show ?thesis by (simp add: sample_host_def)
qed

end
